theory Spec2Isabelle
  imports Complex_Main "HOL-Library.Word"
begin

section \<open>Scan conversion resampling methods\<close>

text \<open>
  A shallow embedding of \<^verbatim>\<open>include/ScanConversionResamplingMethods.h\<close>: the dispatch
  function \<^verbatim>\<open>ScanConversionResampling\<close> and its three adapters.

  The two wrapped toolkits are not part of the repository. Every toolkit filter is
  therefore an opaque object whose state is the list of member calls it has received, in
  program order; what a filter produces when it is run is a parameter of the model (the
  record \<open>toolkit\<close>). A filter of the imaging toolkit may throw from \<^verbatim>\<open>Update()\<close>;
  none of the four functions catches, so the exception leaves the function.

  The output image has three dimensions (the kernel adapter casts from
  \<^verbatim>\<open>itk::Image< float, 3 >\<close>, and both grid adapters read components 0, 1 and 2), so the
  geometry vectors have three components. \<^verbatim>\<open>SizeValueType\<close> is \<^verbatim>\<open>unsigned long\<close>
  (64 bits), \<^verbatim>\<open>int\<close> has 32 bits and \<^verbatim>\<open>vtkIdType\<close> 64. Values of type \<^verbatim>\<open>double\<close>
  are kept abstract (\<open>'d\<close>); comparison, product and the two literals are parameters.
\<close>

subsection \<open>Data\<close>

datatype ScanConversionResamplingMethod =
    ITK_NEAREST_NEIGHBOR
  | ITK_LINEAR
  | ITK_WINDOWED_SINC
  | VTK_PROBE_FILTER
  | VTK_GAUSSIAN_KERNEL
  | VTK_LINEAR_KERNEL
  | VTK_SHEPARD_KERNEL
  | VTK_VORONOI_KERNEL

text \<open>The enumerators are numbered from 0; a stream prints an enumerator as that number.\<close>

fun enum_value :: "ScanConversionResamplingMethod \<Rightarrow> nat" where
  "enum_value ITK_NEAREST_NEIGHBOR = 0"
| "enum_value ITK_LINEAR = 1"
| "enum_value ITK_WINDOWED_SINC = 2"
| "enum_value VTK_PROBE_FILTER = 3"
| "enum_value VTK_GAUSSIAN_KERNEL = 4"
| "enum_value VTK_LINEAR_KERNEL = 5"
| "enum_value VTK_SHEPARD_KERNEL = 6"
| "enum_value VTK_VORONOI_KERNEL = 7"

function decimal :: "nat \<Rightarrow> string" where
  "decimal n =
     (if n < 10 then [''0123456789'' ! n]
      else decimal (n div 10) @ [''0123456789'' ! (n mod 10)])"
  by pat_completeness auto
termination
  by (relation "measure id") auto

declare decimal.simps [simp del]

definition EXIT_SUCCESS :: int where
  "EXIT_SUCCESS = 0"

definition EXIT_FAILURE :: int where
  "EXIT_FAILURE = 1"

text \<open>A vector of three components with \<^verbatim>\<open>operator[]\<close>; an index past the end is no read.\<close>

datatype 'a vec3 = Vec3 (c0: 'a) (c1: 'a) (c2: 'a)

definition vec_at :: "'a vec3 \<Rightarrow> nat \<Rightarrow> 'a option" where
  "vec_at v ii =
     (if ii = 0 then Some (c0 v)
      else if ii = 1 then Some (c1 v)
      else if ii = 2 then Some (c2 v)
      else None)"

type_synonym SizeValueType = "64 word"

subsection \<open>Toolkit objects as call histories\<close>

datatype WindowFunction = LanczosWindowFunction nat

datatype InterpolateImageFunction =
    NearestNeighborInterpolateImageFunction
  | LinearInterpolateImageFunction
  | WindowedSincInterpolateImageFunction nat WindowFunction

datatype ('i, 'd, 'p) ResampleImageFilter_call =
    Resample_SetInput 'i
  | SetSize "SizeValueType vec3"
  | SetOutputSpacing "'d vec3"
  | SetOutputOrigin "'d vec3"
  | SetOutputDirection "'d vec3 vec3"
  | SetInterpolator InterpolateImageFunction
  | Resample_Watcher string 'p

datatype ('i, 'p) ConversionFilter_call =
    Conversion_SetInput 'i
  | Conversion_Watcher string 'p

datatype vtkFloatArray_call =
    SetName string
  | Allocate "64 word"

datatype 'd vtkImageData_call =
    SetDimensions "32 word" "32 word" "32 word"
  | SetSpacing 'd 'd 'd
  | SetOrigin 'd 'd 'd
  | ComputeBounds
  | PointData_SetScalars "vtkFloatArray_call list"

datatype ('sg, 'd) vtkProbeFilter_call =
    Probe_SetSourceData 'sg
  | Probe_SetInputData "'d vtkImageData_call list"

datatype 'd vtkKernel_call =
    SetKernelFootprintToRadius
  | SetRadius 'd

datatype 'd vtkInterpolationKernel =
    vtkGaussianKernel "'d vtkKernel_call list"
  | vtkLinearKernel "'d vtkKernel_call list"
  | vtkShepardKernel "'d vtkKernel_call list"
  | vtkVoronoiKernel "'d vtkKernel_call list"

datatype ('sg, 'd) vtkPointInterpolator_call =
    SetSourceData 'sg
  | SetInputData "'d vtkImageData_call list"
  | SetPassPointArrays bool
  | SetNullPointsStrategyToNullValue
  | SetNullValue 'd
  | SetKernel "'d vtkInterpolationKernel"

datatype 'vi VTKImageToImageFilter_call =
    VTKToITK_SetInput 'vi

datatype 'f CastImageFilter_call =
    Cast_SetInput 'f

text \<open>
  The toolkits. An \<open>Update\<close> field gives the output of the filter that has received the
  calls of the list and is then run; \<open>None\<close> is an exception thrown by \<^verbatim>\<open>Update()\<close>.
  The filters of the visualization toolkit do not throw. \<^verbatim>\<open>VTKImageToImageFilter\<close> is
  instantiated at the output image type by the probe-filter adapter and at
  \<^verbatim>\<open>itk::Image< float, 3 >\<close> by the kernel adapter, hence two fields. The image operations
  act on the image a smart pointer refers to. The last four fields are the arithmetic of
  \<^verbatim>\<open>double\<close>: \<^verbatim>\<open><\<close>, \<^verbatim>\<open>*\<close> and the literals \<^verbatim>\<open>0.0\<close> and \<^verbatim>\<open>1.1\<close>.
\<close>

record ('i, 'o, 'd, 'p, 'sg, 'vi, 'f, 'r) toolkit =
  ResampleImageFilter_Update :: "('i, 'd, 'p) ResampleImageFilter_call list \<Rightarrow> 'o option"
  ConversionFilter_Update :: "('i, 'p) ConversionFilter_call list \<Rightarrow> 'sg option"
  StructuredGrid_ComputeBounds :: "'sg \<Rightarrow> 'sg"
  vtkProbeFilter_Update :: "('sg, 'd) vtkProbeFilter_call list \<Rightarrow> 'vi"
  vtkPointInterpolator_Update :: "('sg, 'd) vtkPointInterpolator_call list \<Rightarrow> 'vi"
  VTKImageToImageFilter_Update :: "'vi VTKImageToImageFilter_call list \<Rightarrow> 'o option"
  VTKImageToFloatImageFilter_Update :: "'vi VTKImageToImageFilter_call list \<Rightarrow> 'f option"
  CastImageFilter_Update :: "'f CastImageFilter_call list \<Rightarrow> 'o option"
  Image_New :: "'o"
  GetLargestPossibleRegion :: "'o \<Rightarrow> 'r"
  SetRegions :: "'r \<Rightarrow> 'o \<Rightarrow> 'o"
  CopyInformation :: "'o \<Rightarrow> 'o \<Rightarrow> 'o"
  Image_Allocate :: "'o \<Rightarrow> 'o"
  ImageAlgorithm_Copy :: "'o \<Rightarrow> 'o \<Rightarrow> 'r \<Rightarrow> 'r \<Rightarrow> 'o"
  double_less :: "'d \<Rightarrow> 'd \<Rightarrow> bool"
  double_times :: "'d \<Rightarrow> 'd \<Rightarrow> 'd"
  double_0_0 :: "'d"
  double_1_1 :: "'d"

subsection \<open>What the caller observes\<close>

text \<open>Each run of a toolkit filter, with the calls the filter had received by then.\<close>

datatype ('i, 'd, 'p, 'sg, 'vi, 'f) toolkit_run =
    ResampleImageFilter_Run "('i, 'd, 'p) ResampleImageFilter_call list"
  | ConversionFilter_Run "('i, 'p) ConversionFilter_call list"
  | vtkProbeFilter_Run "('sg, 'd) vtkProbeFilter_call list"
  | vtkPointInterpolator_Run "('sg, 'd) vtkPointInterpolator_call list"
  | VTKImageToImageFilter_Run "'vi VTKImageToImageFilter_call list"
  | CastImageFilter_Run "'f CastImageFilter_call list"

text \<open>
  The reference parameter \<open>outputImage\<close>, the lines written to \<^verbatim>\<open>std::cerr\<close> and the
  filters run so far, in order.
\<close>

record ('o, 'run) caller =
  outputImage :: 'o
  cerr :: "string list"
  executed :: "'run list"

text \<open>
  How a call ends: it returns an \<^verbatim>\<open>int\<close>; or a toolkit filter throws and the exception
  leaves the function; or the spacing loop reads past the last component of \<open>spacing\<close>,
  after which the language defines nothing. The first two leave the caller a state.
\<close>

datatype ('o, 'run) outcome =
    Returned int "('o, 'run) caller"
  | Threw "('o, 'run) caller"
  | OutOfBounds

fun return_code :: "('o, 'run) outcome \<Rightarrow> int option" where
  "return_code (Returned rc w) = Some rc"
| "return_code (Threw w) = None"
| "return_code OutOfBounds = None"

fun final :: "('o, 'run) outcome \<Rightarrow> ('o, 'run) caller option" where
  "final (Returned rc w) = Some w"
| "final (Threw w) = Some w"
| "final OutOfBounds = None"

text \<open>
  \<^verbatim>\<open>std::cerr << ... << std::endl\<close> adds a line; \<^verbatim>\<open>Update()\<close> on a filter adds a run.
\<close>

definition print_line :: "string \<Rightarrow> ('o, 'run) caller \<Rightarrow> ('o, 'run) caller" where
  "print_line s w = w\<lparr>cerr := cerr w @ [s]\<rparr>"

definition run :: "'run \<Rightarrow> ('o, 'run) caller \<Rightarrow> ('o, 'run) caller" where
  "run r w = w\<lparr>executed := executed w @ [r]\<rparr>"

subsection \<open>The adapter of the imaging toolkit's resampler\<close>

text \<open>
  \<^verbatim>\<open>ITKScanConversionResampling\<close>. The \<^verbatim>\<open>switch\<close> either extends the resampler with an
  interpolator or, in its \<^verbatim>\<open>default\<close>, prints and returns; the inner \<open>case\<close> is the
  \<^verbatim>\<open>switch\<close>, and \<open>None\<close> its \<^verbatim>\<open>default\<close> label.
\<close>

definition ITKScanConversionResampling ::
  "('i, 'o, 'd, 'p, 'sg, 'vi, 'f, 'r) toolkit \<Rightarrow> 'i \<Rightarrow>
   ('o, ('i, 'd, 'p, 'sg, 'vi, 'f) toolkit_run) caller \<Rightarrow>
   SizeValueType vec3 \<Rightarrow> 'd vec3 \<Rightarrow> 'd vec3 \<Rightarrow> 'd vec3 vec3 \<Rightarrow>
   ScanConversionResamplingMethod \<Rightarrow> 'p \<Rightarrow>
   ('o, ('i, 'd, 'p, 'sg, 'vi, 'f) toolkit_run) outcome" where
  "ITKScanConversionResampling tk inputImage w size' spacing origin direction method
     CLPProcessInformation =
   (let resampler = [Resample_SetInput inputImage];
        resampler = resampler @ [SetSize size'];
        resampler = resampler @ [SetOutputSpacing spacing];
        resampler = resampler @ [SetOutputOrigin origin];
        resampler = resampler @ [SetOutputDirection direction]
    in case (case method of
               ITK_NEAREST_NEIGHBOR \<Rightarrow>
                 Some (resampler @ [SetInterpolator NearestNeighborInterpolateImageFunction])
             | ITK_LINEAR \<Rightarrow>
                 Some (resampler @ [SetInterpolator LinearInterpolateImageFunction])
             | ITK_WINDOWED_SINC \<Rightarrow>
                 Some (resampler @ [SetInterpolator
                   (WindowedSincInterpolateImageFunction 3 (LanczosWindowFunction 3))])
             | _ \<Rightarrow> None) of
         None \<Rightarrow>
           Returned EXIT_FAILURE
             (print_line ''Unsupported resampling method in ITKScanConversionResampling'' w)
       | Some resampler \<Rightarrow>
           (let resampler = resampler @ [Resample_Watcher ''Resample Image'' CLPProcessInformation];
                w = run (ResampleImageFilter_Run resampler) w
            in case ResampleImageFilter_Update tk resampler of
                 None \<Rightarrow> Threw w
               | Some out \<Rightarrow> Returned EXIT_SUCCESS (w\<lparr>outputImage := out\<rparr>)))"

subsection \<open>The probe-filter adapter\<close>

text \<open>
  \<^verbatim>\<open>VTKProbeFilterResampling\<close>. It has no direction parameter. \<^verbatim>\<open>SetDimensions\<close> takes
  three \<^verbatim>\<open>int\<close>, so each size component is converted from 64 to 32 bits.
\<close>

definition VTKProbeFilterResampling ::
  "('i, 'o, 'd, 'p, 'sg, 'vi, 'f, 'r) toolkit \<Rightarrow> 'i \<Rightarrow>
   ('o, ('i, 'd, 'p, 'sg, 'vi, 'f) toolkit_run) caller \<Rightarrow>
   SizeValueType vec3 \<Rightarrow> 'd vec3 \<Rightarrow> 'd vec3 \<Rightarrow> 'p \<Rightarrow>
   ('o, ('i, 'd, 'p, 'sg, 'vi, 'f) toolkit_run) outcome" where
  "VTKProbeFilterResampling tk inputImage w size' spacing origin CLPProcessInformation =
   (let conversionFilter = [Conversion_SetInput inputImage];
        conversionFilter = conversionFilter @
          [Conversion_Watcher ''Convert to vtkStructuredGrid'' CLPProcessInformation];
        w = run (ConversionFilter_Run conversionFilter) w
    in case ConversionFilter_Update tk conversionFilter of
         None \<Rightarrow> Threw w
       | Some inputStructuredGrid \<Rightarrow>
           (let grid = [SetDimensions (ucast (c0 size')) (ucast (c1 size')) (ucast (c2 size'))];
                grid = grid @ [SetSpacing (c0 spacing) (c1 spacing) (c2 spacing)];
                grid = grid @ [SetOrigin (c0 origin) (c1 origin) (c2 origin)];
                grid = grid @ [ComputeBounds];
                probeFilter = [Probe_SetSourceData inputStructuredGrid];
                probeFilter = probeFilter @ [Probe_SetInputData grid];
                w = run (vtkProbeFilter_Run probeFilter) w;
                vtkToITKFilter = [VTKToITK_SetInput (vtkProbeFilter_Update tk probeFilter)];
                w = run (VTKImageToImageFilter_Run vtkToITKFilter) w
            in case VTKImageToImageFilter_Update tk vtkToITKFilter of
                 None \<Rightarrow> Threw w
               | Some converted \<Rightarrow>
                   (let output = Image_New tk;
                        output = SetRegions tk (GetLargestPossibleRegion tk converted) output;
                        output = Image_Allocate tk output;
                        output = ImageAlgorithm_Copy tk converted output
                          (GetLargestPossibleRegion tk output)
                          (GetLargestPossibleRegion tk output)
                    in Returned EXIT_SUCCESS (w\<lparr>outputImage := output\<rparr>))))"

subsection \<open>The kernel adapter\<close>

text \<open>\<^verbatim>\<open>std::max(a, b)\<close> is \<^verbatim>\<open>(a < b) ? b : a\<close>.\<close>

definition std_max :: "('d \<Rightarrow> 'd \<Rightarrow> bool) \<Rightarrow> 'd \<Rightarrow> 'd \<Rightarrow> 'd" where
  "std_max lt a b = (if lt a b then b else a)"

text \<open>
  The loop over \<^verbatim>\<open>ii < InputImageType::ImageDimension\<close>, from the counter \<open>ii\<close> and the
  running \<open>maxSpacing\<close>. The bound is the dimension of the input image while \<open>spacing\<close>
  has the three components of the output image.
\<close>

function maxSpacing_loop ::
  "('d \<Rightarrow> 'd \<Rightarrow> bool) \<Rightarrow> nat \<Rightarrow> 'd vec3 \<Rightarrow> nat \<Rightarrow> 'd \<Rightarrow> 'd option" where
  "maxSpacing_loop lt ImageDimension spacing ii maxSpacing =
     (if ii < ImageDimension then
        (case vec_at spacing ii of
           None \<Rightarrow> None
         | Some s \<Rightarrow>
             maxSpacing_loop lt ImageDimension spacing (Suc ii) (std_max lt maxSpacing s))
      else Some maxSpacing)"
  by pat_completeness auto
termination
  by (relation "measure (\<lambda>(lt, n, spacing, ii, m). n - ii)") auto

declare maxSpacing_loop.simps [simp del]

text \<open>
  \<^verbatim>\<open>VTKPointInterpolatorResampling\<close>. The first \<^verbatim>\<open>switch\<close> builds the kernel, the second
  runs the interpolator; each has a \<^verbatim>\<open>default\<close> that prints and returns. The call
  \<^verbatim>\<open>interpolationKernel->Delete()\<close> only drops a reference and is left out.
\<close>

definition VTKPointInterpolatorResampling ::
  "('i, 'o, 'd, 'p, 'sg, 'vi, 'f, 'r) toolkit \<Rightarrow> nat \<Rightarrow> 'i \<Rightarrow>
   ('o, ('i, 'd, 'p, 'sg, 'vi, 'f) toolkit_run) caller \<Rightarrow>
   SizeValueType vec3 \<Rightarrow> 'd vec3 \<Rightarrow> 'd vec3 \<Rightarrow>
   ScanConversionResamplingMethod \<Rightarrow> 'p \<Rightarrow>
   ('o, ('i, 'd, 'p, 'sg, 'vi, 'f) toolkit_run) outcome" where
  "VTKPointInterpolatorResampling tk ImageDimension inputImage w size' spacing origin method
     CLPProcessInformation =
   (let conversionFilter = [Conversion_SetInput inputImage];
        conversionFilter = conversionFilter @
          [Conversion_Watcher ''Convert to vtkStructuredGrid'' CLPProcessInformation];
        w = run (ConversionFilter_Run conversionFilter) w
    in case ConversionFilter_Update tk conversionFilter of
         None \<Rightarrow> Threw w
       | Some inputStructuredGrid \<Rightarrow>
           (let inputStructuredGrid = StructuredGrid_ComputeBounds tk inputStructuredGrid;
                grid = [SetDimensions (ucast (c0 size')) (ucast (c1 size')) (ucast (c2 size'))];
                grid = grid @ [SetSpacing (c0 spacing) (c1 spacing) (c2 spacing)];
                grid = grid @ [SetOrigin (c0 origin) (c1 origin) (c2 origin)];
                grid = grid @ [ComputeBounds];
                scalars = [SetName ''Scalars''];
                scalars = scalars @ [Allocate (c0 size' * c1 size' * c2 size')];
                grid = grid @ [PointData_SetScalars scalars];
                pointInterpolator = [SetSourceData inputStructuredGrid];
                pointInterpolator = pointInterpolator @ [SetInputData grid];
                pointInterpolator = pointInterpolator @ [SetPassPointArrays False];
                pointInterpolator = pointInterpolator @ [SetNullPointsStrategyToNullValue];
                pointInterpolator = pointInterpolator @ [SetNullValue (double_0_0 tk)]
            in case maxSpacing_loop (double_less tk) ImageDimension spacing 0 (double_0_0 tk) of
                 None \<Rightarrow> OutOfBounds
               | Some maxSpacing \<Rightarrow>
                   (let radius = double_times tk (double_1_1 tk) maxSpacing
                    in case (case method of
                               VTK_GAUSSIAN_KERNEL \<Rightarrow>
                                 Some (vtkGaussianKernel
                                   [SetKernelFootprintToRadius, SetRadius radius])
                             | VTK_LINEAR_KERNEL \<Rightarrow>
                                 Some (vtkLinearKernel
                                   [SetKernelFootprintToRadius, SetRadius radius])
                             | VTK_SHEPARD_KERNEL \<Rightarrow>
                                 Some (vtkShepardKernel
                                   [SetKernelFootprintToRadius, SetRadius radius])
                             | VTK_VORONOI_KERNEL \<Rightarrow> Some (vtkVoronoiKernel [])
                             | _ \<Rightarrow> None) of
                         None \<Rightarrow>
                           Returned EXIT_FAILURE
                             (print_line (''Unexpected interpolation kernel: '' @
                                decimal (enum_value method)) w)
                       | Some interpolationKernel \<Rightarrow>
                           if method = VTK_GAUSSIAN_KERNEL \<or> method = VTK_LINEAR_KERNEL \<or>
                              method = VTK_SHEPARD_KERNEL \<or> method = VTK_VORONOI_KERNEL
                           then
                             (let pointInterpolator =
                                    pointInterpolator @ [SetKernel interpolationKernel];
                                  w = run (vtkPointInterpolator_Run pointInterpolator) w;
                                  vtkToITKFilter = [VTKToITK_SetInput
                                    (vtkPointInterpolator_Update tk pointInterpolator)];
                                  w = run (VTKImageToImageFilter_Run vtkToITKFilter) w
                              in case VTKImageToFloatImageFilter_Update tk vtkToITKFilter of
                                   None \<Rightarrow> Threw w
                                 | Some floatImage \<Rightarrow>
                                     (let caster = [Cast_SetInput floatImage];
                                          w = run (CastImageFilter_Run caster) w
                                      in case CastImageFilter_Update tk caster of
                                           None \<Rightarrow> Threw w
                                         | Some cast \<Rightarrow>
                                             (let output = Image_New tk;
                                                  output = SetRegions tk
                                                    (GetLargestPossibleRegion tk cast) output;
                                                  output = CopyInformation tk cast output;
                                                  output = Image_Allocate tk output;
                                                  output = ImageAlgorithm_Copy tk cast output
                                                    (GetLargestPossibleRegion tk output)
                                                    (GetLargestPossibleRegion tk output)
                                              in Returned EXIT_SUCCESS
                                                   (w\<lparr>outputImage := output\<rparr>))))
                           else
                             Returned EXIT_FAILURE
                               (print_line (''Unexpected interpolation kernel: '' @
                                  decimal (enum_value method)) w))))"

subsection \<open>The dispatcher\<close>

text \<open>
  The first block of \<^verbatim>\<open>ScanConversionResampling\<close>: \<open>method\<close> starts as \<open>ITK_LINEAR\<close> and
  the chain of string comparisons, which has no final \<^verbatim>\<open>else\<close>, may overwrite it.
\<close>

definition method_of_methodString :: "string \<Rightarrow> ScanConversionResamplingMethod" where
  "method_of_methodString methodString =
   (let method = ITK_LINEAR
    in if methodString = ''ITKNearestNeighbor'' then ITK_NEAREST_NEIGHBOR
       else if methodString = ''ITKLinear'' then ITK_LINEAR
       else if methodString = ''ITKWindowedSinc'' then ITK_WINDOWED_SINC
       else if methodString = ''VTKProbeFilter'' then VTK_PROBE_FILTER
       else if methodString = ''VTKGaussianKernel'' then VTK_GAUSSIAN_KERNEL
       else if methodString = ''VTKLinearKernel'' then VTK_LINEAR_KERNEL
       else if methodString = ''VTKShepardKernel'' then VTK_SHEPARD_KERNEL
       else if methodString = ''VTKVoronoiKernel'' then VTK_VORONOI_KERNEL
       else method)"

text \<open>
  \<^verbatim>\<open>ScanConversionResampling\<close>. Its \<^verbatim>\<open>switch\<close> lists all eight enumerators and then a
  \<^verbatim>\<open>default\<close>; the conditional keeps the labels in their groups and the \<^verbatim>\<open>default\<close>,
  with the \<^verbatim>\<open>return EXIT_FAILURE\<close> after it, as the last branch.
\<close>

definition ScanConversionResampling ::
  "('i, 'o, 'd, 'p, 'sg, 'vi, 'f, 'r) toolkit \<Rightarrow> nat \<Rightarrow> 'i \<Rightarrow>
   ('o, ('i, 'd, 'p, 'sg, 'vi, 'f) toolkit_run) caller \<Rightarrow>
   SizeValueType vec3 \<Rightarrow> 'd vec3 \<Rightarrow> 'd vec3 \<Rightarrow> 'd vec3 vec3 \<Rightarrow>
   string \<Rightarrow> 'p \<Rightarrow>
   ('o, ('i, 'd, 'p, 'sg, 'vi, 'f) toolkit_run) outcome" where
  "ScanConversionResampling tk ImageDimension inputImage w size' spacing origin direction
     methodString CLPProcessInformation =
   (let method = method_of_methodString methodString
    in if method = ITK_NEAREST_NEIGHBOR \<or> method = ITK_LINEAR \<or> method = ITK_WINDOWED_SINC
       then ITKScanConversionResampling tk inputImage w size' spacing origin direction
              method CLPProcessInformation
       else if method = VTK_PROBE_FILTER
       then VTKProbeFilterResampling tk inputImage w size' spacing origin
              CLPProcessInformation
       else if method = VTK_GAUSSIAN_KERNEL \<or> method = VTK_LINEAR_KERNEL \<or>
               method = VTK_SHEPARD_KERNEL \<or> method = VTK_VORONOI_KERNEL
       then VTKPointInterpolatorResampling tk ImageDimension inputImage w size' spacing
              origin method CLPProcessInformation
       else Returned EXIT_FAILURE
              (print_line ''Unknown scan conversion resampling method'' w))"

subsection \<open>A toolkit that records what it is given\<close>

text \<open>
  For concrete runs: every output of this toolkit is the term of the calls that produced
  it, so two outputs are equal only when the filters were configured alike. No filter
  throws, and \<^verbatim>\<open>double\<close> is read as \<open>real\<close>.
\<close>

datatype test_grid =
    Grid "(string, nat) ConversionFilter_call list"
  | Bounds_computed test_grid

datatype test_vtk_image =
    Probed "(test_grid, real) vtkProbeFilter_call list"
  | Interpolated "(test_grid, real) vtkPointInterpolator_call list"

datatype test_float_image =
    Float_image "test_vtk_image VTKImageToImageFilter_call list"

datatype test_image =
    Caller_image
  | Resampled "(string, real, nat) ResampleImageFilter_call list"
  | From_VTK "test_vtk_image VTKImageToImageFilter_call list"
  | Cast_of "test_float_image CastImageFilter_call list"
  | New_image
  | With_regions test_region test_image
  | With_information test_image test_image
  | Allocated test_image
  | Copied test_image test_image test_region test_region
and test_region =
    Largest_region test_image

definition symbolic_toolkit ::
  "(string, test_image, real, nat, test_grid, test_vtk_image, test_float_image,
    test_region) toolkit" where
  "symbolic_toolkit =
    \<lparr> ResampleImageFilter_Update = (\<lambda>h. Some (Resampled h)),
      ConversionFilter_Update = (\<lambda>h. Some (Grid h)),
      StructuredGrid_ComputeBounds = Bounds_computed,
      vtkProbeFilter_Update = Probed,
      vtkPointInterpolator_Update = Interpolated,
      VTKImageToImageFilter_Update = (\<lambda>h. Some (From_VTK h)),
      VTKImageToFloatImageFilter_Update = (\<lambda>h. Some (Float_image h)),
      CastImageFilter_Update = (\<lambda>h. Some (Cast_of h)),
      Image_New = New_image,
      GetLargestPossibleRegion = Largest_region,
      SetRegions = With_regions,
      CopyInformation = With_information,
      Image_Allocate = Allocated,
      ImageAlgorithm_Copy = Copied,
      double_less = (<),
      double_times = (*),
      double_0_0 = 0,
      double_1_1 = 11 / 10 \<rparr>"

definition example_caller ::
  "(test_image, (string, real, nat, test_grid, test_vtk_image, test_float_image)
     toolkit_run) caller" where
  "example_caller = \<lparr>outputImage = Caller_image, cerr = [], executed = []\<rparr>"

definition identity_direction :: "real vec3 vec3" where
  "identity_direction = Vec3 (Vec3 1 0 0) (Vec3 0 1 0) (Vec3 0 0 1)"


subsection \<open>The specification's reading of the kernel radius\<close>

text \<open>
  The specification speaks of the maximum component of the spacing over the dimensions
  of the input image: the maximum of those components themselves, with no other value
  taking part. For comparison with \<open>maxSpacing_loop\<close>, which starts from \<open>0.0\<close>.
\<close>

definition maximum_component :: "('d \<Rightarrow> 'd \<Rightarrow> bool) \<Rightarrow> nat \<Rightarrow> 'd vec3 \<Rightarrow> 'd option" where
  "maximum_component lt n v =
     (case take n [c0 v, c1 v, c2 v] of
        [] \<Rightarrow> None
      | x # xs \<Rightarrow> Some (foldl (std_max lt) x xs))"

section \<open>Properties\<close>

subsection \<open>The method name and the dispatch\<close>

lemma method_of_unrecognized:
  "methodString \<notin> {''ITKNearestNeighbor'', ''ITKLinear'', ''ITKWindowedSinc'',
     ''VTKProbeFilter'', ''VTKGaussianKernel'', ''VTKLinearKernel'', ''VTKShepardKernel'',
     ''VTKVoronoiKernel''}
   \<Longrightarrow> method_of_methodString methodString = ITK_LINEAR"
  by (simp add: method_of_methodString_def)

lemma method_of_recognized:
  "method_of_methodString ''ITKNearestNeighbor'' = ITK_NEAREST_NEIGHBOR"
  "method_of_methodString ''ITKLinear'' = ITK_LINEAR"
  "method_of_methodString ''ITKWindowedSinc'' = ITK_WINDOWED_SINC"
  "method_of_methodString ''VTKProbeFilter'' = VTK_PROBE_FILTER"
  "method_of_methodString ''VTKGaussianKernel'' = VTK_GAUSSIAN_KERNEL"
  "method_of_methodString ''VTKLinearKernel'' = VTK_LINEAR_KERNEL"
  "method_of_methodString ''VTKShepardKernel'' = VTK_SHEPARD_KERNEL"
  "method_of_methodString ''VTKVoronoiKernel'' = VTK_VORONOI_KERNEL"
  by (simp_all add: method_of_methodString_def)

lemma method_cases:
  "m \<in> {ITK_NEAREST_NEIGHBOR, ITK_LINEAR, ITK_WINDOWED_SINC} \<or> m = VTK_PROBE_FILTER \<or>
   m \<in> {VTK_GAUSSIAN_KERNEL, VTK_LINEAR_KERNEL, VTK_SHEPARD_KERNEL, VTK_VORONOI_KERNEL}"
  by (cases m) simp_all

lemma dispatch_ITK:
  "method_of_methodString methodString \<in> {ITK_NEAREST_NEIGHBOR, ITK_LINEAR, ITK_WINDOWED_SINC}
   \<Longrightarrow>
   ScanConversionResampling tk n inputImage w size' spacing origin direction methodString p =
   ITKScanConversionResampling tk inputImage w size' spacing origin direction
     (method_of_methodString methodString) p"
  by (auto simp add: ScanConversionResampling_def Let_def)

lemma dispatch_probe:
  "method_of_methodString methodString = VTK_PROBE_FILTER \<Longrightarrow>
   ScanConversionResampling tk n inputImage w size' spacing origin direction methodString p =
   VTKProbeFilterResampling tk inputImage w size' spacing origin p"
  by (simp add: ScanConversionResampling_def Let_def)

lemma dispatch_kernel:
  "method_of_methodString methodString \<in>
     {VTK_GAUSSIAN_KERNEL, VTK_LINEAR_KERNEL, VTK_SHEPARD_KERNEL, VTK_VORONOI_KERNEL} \<Longrightarrow>
   ScanConversionResampling tk n inputImage w size' spacing origin direction methodString p =
   VTKPointInterpolatorResampling tk n inputImage w size' spacing origin
     (method_of_methodString methodString) p"
  by (auto simp add: ScanConversionResampling_def Let_def)

lemma unrecognized_dispatches_to_ITK_LINEAR:
  "methodString \<notin> {''ITKNearestNeighbor'', ''ITKLinear'', ''ITKWindowedSinc'',
     ''VTKProbeFilter'', ''VTKGaussianKernel'', ''VTKLinearKernel'', ''VTKShepardKernel'',
     ''VTKVoronoiKernel''} \<Longrightarrow>
   ScanConversionResampling tk n inputImage w size' spacing origin direction methodString p =
   ITKScanConversionResampling tk inputImage w size' spacing origin direction ITK_LINEAR p"
  by (simp add: method_of_unrecognized dispatch_ITK)

text \<open>
  C1. The claim is that a name outside the eight recognized ones makes the dispatcher
  print an error and return \<open>EXIT_FAILURE\<close> with no chain run and \<open>outputImage\<close>
  untouched. The code does not: \<open>method\<close> keeps its initial value \<open>ITK_LINEAR\<close>, so the
  linear resampler runs, \<open>outputImage\<close> is assigned, nothing is printed and
  \<open>EXIT_SUCCESS\<close> is returned. Evaluated at the name \<^verbatim>\<open>ITKBSpline\<close>.
\<close>

theorem unrecognized_name_runs_linear_resampler:
  "ScanConversionResampling symbolic_toolkit 3 ''in'' example_caller
     (Vec3 4 5 6) (Vec3 1 2 3) (Vec3 0 0 0) identity_direction ''ITKBSpline'' 0 =
   Returned EXIT_SUCCESS
     \<lparr>outputImage = Resampled
        [Resample_SetInput ''in'', SetSize (Vec3 4 5 6), SetOutputSpacing (Vec3 1 2 3),
         SetOutputOrigin (Vec3 0 0 0), SetOutputDirection identity_direction,
         SetInterpolator LinearInterpolateImageFunction,
         Resample_Watcher ''Resample Image'' 0],
      cerr = [],
      executed = [ResampleImageFilter_Run
        [Resample_SetInput ''in'', SetSize (Vec3 4 5 6), SetOutputSpacing (Vec3 1 2 3),
         SetOutputOrigin (Vec3 0 0 0), SetOutputDirection identity_direction,
         SetInterpolator LinearInterpolateImageFunction,
         Resample_Watcher ''Resample Image'' 0]]\<rparr>"
  by (simp add: ScanConversionResampling_def method_of_methodString_def
      ITKScanConversionResampling_def Let_def run_def symbolic_toolkit_def example_caller_def)

text \<open>
  C2. Each of the eight recognized names is mapped to its enumerator, and the dispatcher
  is then exactly the matching adapter called with that enumerator: the resampler adapter
  for the three \<open>ITK\<close> names, the probe-filter adapter for \<open>VTKProbeFilter\<close>, the kernel
  adapter for the four kernel names.
\<close>

theorem recognized_names_dispatch:
  "method_of_methodString ''ITKNearestNeighbor'' = ITK_NEAREST_NEIGHBOR \<and>
   ScanConversionResampling tk n inputImage w size' spacing origin direction
       ''ITKNearestNeighbor'' p =
     ITKScanConversionResampling tk inputImage w size' spacing origin direction
       ITK_NEAREST_NEIGHBOR p \<and>
   method_of_methodString ''ITKLinear'' = ITK_LINEAR \<and>
   ScanConversionResampling tk n inputImage w size' spacing origin direction
       ''ITKLinear'' p =
     ITKScanConversionResampling tk inputImage w size' spacing origin direction
       ITK_LINEAR p \<and>
   method_of_methodString ''ITKWindowedSinc'' = ITK_WINDOWED_SINC \<and>
   ScanConversionResampling tk n inputImage w size' spacing origin direction
       ''ITKWindowedSinc'' p =
     ITKScanConversionResampling tk inputImage w size' spacing origin direction
       ITK_WINDOWED_SINC p \<and>
   method_of_methodString ''VTKProbeFilter'' = VTK_PROBE_FILTER \<and>
   ScanConversionResampling tk n inputImage w size' spacing origin direction
       ''VTKProbeFilter'' p =
     VTKProbeFilterResampling tk inputImage w size' spacing origin p \<and>
   method_of_methodString ''VTKGaussianKernel'' = VTK_GAUSSIAN_KERNEL \<and>
   ScanConversionResampling tk n inputImage w size' spacing origin direction
       ''VTKGaussianKernel'' p =
     VTKPointInterpolatorResampling tk n inputImage w size' spacing origin
       VTK_GAUSSIAN_KERNEL p \<and>
   method_of_methodString ''VTKLinearKernel'' = VTK_LINEAR_KERNEL \<and>
   ScanConversionResampling tk n inputImage w size' spacing origin direction
       ''VTKLinearKernel'' p =
     VTKPointInterpolatorResampling tk n inputImage w size' spacing origin
       VTK_LINEAR_KERNEL p \<and>
   method_of_methodString ''VTKShepardKernel'' = VTK_SHEPARD_KERNEL \<and>
   ScanConversionResampling tk n inputImage w size' spacing origin direction
       ''VTKShepardKernel'' p =
     VTKPointInterpolatorResampling tk n inputImage w size' spacing origin
       VTK_SHEPARD_KERNEL p \<and>
   method_of_methodString ''VTKVoronoiKernel'' = VTK_VORONOI_KERNEL \<and>
   ScanConversionResampling tk n inputImage w size' spacing origin direction
       ''VTKVoronoiKernel'' p =
     VTKPointInterpolatorResampling tk n inputImage w size' spacing origin
       VTK_VORONOI_KERNEL p"
  by (simp add: method_of_recognized dispatch_ITK dispatch_probe dispatch_kernel)

subsection \<open>The spacing loop\<close>

lemma maxSpacing_loop_closed:
  "maxSpacing_loop lt n spacing 0 z =
     (if n \<le> 3 then Some (foldl (std_max lt) z (take n [c0 spacing, c1 spacing, c2 spacing]))
      else None)"
proof -
  consider "n = 0" | "n = 1" | "n = 2" | "n = 3" | "3 < n" by linarith
  then show ?thesis
  proof cases
    case 1 then show ?thesis by (simp add: maxSpacing_loop.simps)
  next
    case 2 then show ?thesis by (simp add: maxSpacing_loop.simps vec_at_def)
  next
    case 3 then show ?thesis by (simp add: maxSpacing_loop.simps vec_at_def numeral_2_eq_2)
  next
    case 4 then show ?thesis by (simp add: maxSpacing_loop.simps vec_at_def numeral_3_eq_3)
  next
    case 5 then show ?thesis by (simp add: maxSpacing_loop.simps vec_at_def)
  qed
qed

lemma std_max_linorder: "std_max (<) = (max :: 'a::linorder \<Rightarrow> 'a \<Rightarrow> 'a)"
  by (auto simp add: std_max_def max_def fun_eq_iff)

lemma foldl_std_max_linorder:
  "foldl (std_max (<)) (z :: 'a::linorder) xs = Max (insert z (set xs))"
proof -
  have "foldl max z xs = fold max xs z"
    by (simp add: foldl_conv_fold max.commute)
  also have "\<dots> = Max (set (z # xs))"
    by (simp only: Max.set_eq_fold)
  finally show ?thesis by (simp add: std_max_linorder)
qed

text \<open>
  On a linear order, the loop started at \<open>z\<close> gives the maximum component exactly when
  some component it visits is at least \<open>z\<close>.
\<close>

lemma maxSpacing_agrees_with_maximum:
  fixes z :: "'a::linorder"
  assumes "0 < n" and "n \<le> 3" and "\<exists>x \<in> set (take n [c0 v, c1 v, c2 v]). z \<le> x"
  shows "maxSpacing_loop (<) n v 0 z = maximum_component (<) n v"
proof -
  define ys where "ys = take n [c0 v, c1 v, c2 v]"
  obtain x xs where t: "ys = x # xs"
    using assms(1) unfolding ys_def by (cases n) simp_all
  from assms(3) obtain y where y: "y \<in> set ys" "z \<le> y"
    unfolding ys_def by blast
  have "z \<le> Max (set ys)"
    using y by (meson List.finite_set Max_ge order_trans)
  moreover have "Max (insert z (set ys)) = max z (Max (set ys))"
    using t by simp
  ultimately have m: "Max (insert z (set ys)) = Max (set ys)"
    by (simp add: max.absorb2)
  have "maxSpacing_loop (<) n v 0 z = Some (Max (insert z (set ys)))"
    using assms(2) unfolding ys_def
    by (simp only: maxSpacing_loop_closed foldl_std_max_linorder if_True)
  moreover have "maximum_component (<) n v = Some (Max (set ys))"
    unfolding maximum_component_def ys_def [symmetric] t
    by (simp only: list.case foldl_std_max_linorder list.set)
  ultimately show ?thesis
    using m by simp
qed

subsection \<open>The adapters: failure, printing and assignment\<close>

lemma ITK_supported_quiet:
  assumes "method \<in> {ITK_NEAREST_NEIGHBOR, ITK_LINEAR, ITK_WINDOWED_SINC}"
  shows "return_code (ITKScanConversionResampling tk inputImage w size' spacing origin direction method p)
           \<noteq> Some EXIT_FAILURE"
    and "\<forall>w'. final (ITKScanConversionResampling tk inputImage w size' spacing origin direction method p) = Some w'
           \<longrightarrow> cerr w' = cerr w"
  using assms
  by (auto simp add: ITKScanConversionResampling_def Let_def run_def EXIT_SUCCESS_def EXIT_FAILURE_def
      split: option.split)

lemma probe_quiet:
  shows "return_code (VTKProbeFilterResampling tk inputImage w size' spacing origin p) \<noteq> Some EXIT_FAILURE"
    and "\<forall>w'. final (VTKProbeFilterResampling tk inputImage w size' spacing origin p) = Some w'
           \<longrightarrow> cerr w' = cerr w"
  by (simp_all add: VTKProbeFilterResampling_def Let_def run_def EXIT_SUCCESS_def EXIT_FAILURE_def
      split: option.split)

lemma kernel_supported_quiet:
  assumes "method \<in> {VTK_GAUSSIAN_KERNEL, VTK_LINEAR_KERNEL, VTK_SHEPARD_KERNEL, VTK_VORONOI_KERNEL}"
  shows "return_code (VTKPointInterpolatorResampling tk n inputImage w size' spacing origin method p)
           \<noteq> Some EXIT_FAILURE"
    and "\<forall>w'. final (VTKPointInterpolatorResampling tk n inputImage w size' spacing origin method p) = Some w'
           \<longrightarrow> cerr w' = cerr w"
  using assms
  by (cases "method";
      simp add: VTKPointInterpolatorResampling_def Let_def run_def EXIT_SUCCESS_def EXIT_FAILURE_def
      split: option.split)+

lemma ITK_assigns_on_success:
  "final (ITKScanConversionResampling tk inputImage w size' spacing origin direction method p) = Some w'
   \<Longrightarrow> outputImage w' \<noteq> outputImage w
   \<Longrightarrow> ITKScanConversionResampling tk inputImage w size' spacing origin direction method p =
         Returned EXIT_SUCCESS w'"
  by (cases "method")
     (auto simp add: ITKScanConversionResampling_def Let_def run_def print_line_def
       split: option.splits)

lemma probe_assigns_on_success:
  "final (VTKProbeFilterResampling tk inputImage w size' spacing origin p) = Some w'
   \<Longrightarrow> outputImage w' \<noteq> outputImage w
   \<Longrightarrow> VTKProbeFilterResampling tk inputImage w size' spacing origin p = Returned EXIT_SUCCESS w'"
  by (auto simp add: VTKProbeFilterResampling_def Let_def run_def
       split: option.splits)

lemma kernel_assigns_on_success:
  "final (VTKPointInterpolatorResampling tk n inputImage w size' spacing origin method p) = Some w'
   \<Longrightarrow> outputImage w' \<noteq> outputImage w
   \<Longrightarrow> VTKPointInterpolatorResampling tk n inputImage w size' spacing origin method p =
         Returned EXIT_SUCCESS w'"
  by (cases "method")
     (auto simp add: VTKPointInterpolatorResampling_def Let_def run_def print_line_def
       split: option.splits)




lemma example_ITK_unsupported:
  "ITKScanConversionResampling symbolic_toolkit ''in'' example_caller
     (Vec3 4 5 6) (Vec3 1 2 3) (Vec3 0 0 0) identity_direction VTK_PROBE_FILTER 0 =
   Returned EXIT_FAILURE
     (print_line ''Unsupported resampling method in ITKScanConversionResampling'' example_caller)"
  by (simp add: ITKScanConversionResampling_def)

lemma example_kernel_unsupported:
  "VTKPointInterpolatorResampling symbolic_toolkit 3 ''in'' example_caller
     (Vec3 4 5 6) (Vec3 1 2 3) (Vec3 0 0 0) ITK_LINEAR 0 =
   Returned EXIT_FAILURE
     (print_line ''Unexpected interpolation kernel: 1''
        (run (ConversionFilter_Run
           [Conversion_SetInput ''in'', Conversion_Watcher ''Convert to vtkStructuredGrid'' 0])
           example_caller))"
  by (simp add: VTKPointInterpolatorResampling_def Let_def symbolic_toolkit_def
      maxSpacing_loop_closed decimal.simps)

subsection \<open>Geometry\<close>




subsection \<open>Return codes\<close>

text \<open>
  C4. For each recognized name the dispatcher returns the return code of the adapter it
  dispatches to, called with the enumerator of that name; when the adapter throws, so
  does the dispatcher.
\<close>

theorem return_code_forwarded:
  "(methodString \<in> {''ITKNearestNeighbor'', ''ITKLinear'', ''ITKWindowedSinc''} \<longrightarrow>
      return_code (ScanConversionResampling tk n inputImage w size' spacing origin direction
        methodString p) =
      return_code (ITKScanConversionResampling tk inputImage w size' spacing origin direction
        (method_of_methodString methodString) p)) \<and>
   (methodString = ''VTKProbeFilter'' \<longrightarrow>
      return_code (ScanConversionResampling tk n inputImage w size' spacing origin direction
        methodString p) =
      return_code (VTKProbeFilterResampling tk inputImage w size' spacing origin p)) \<and>
   (methodString \<in> {''VTKGaussianKernel'', ''VTKLinearKernel'', ''VTKShepardKernel'',
        ''VTKVoronoiKernel''} \<longrightarrow>
      return_code (ScanConversionResampling tk n inputImage w size' spacing origin direction
        methodString p) =
      return_code (VTKPointInterpolatorResampling tk n inputImage w size' spacing origin
        (method_of_methodString methodString) p))"
proof (intro conjI impI)
  assume "methodString \<in> {''ITKNearestNeighbor'', ''ITKLinear'', ''ITKWindowedSinc''}"
  then have "method_of_methodString methodString \<in>
      {ITK_NEAREST_NEIGHBOR, ITK_LINEAR, ITK_WINDOWED_SINC}"
    by (auto simp add: method_of_recognized)
  then show "return_code (ScanConversionResampling tk n inputImage w size' spacing origin
        direction methodString p) =
      return_code (ITKScanConversionResampling tk inputImage w size' spacing origin direction
        (method_of_methodString methodString) p)"
    by (simp only: dispatch_ITK)
next
  assume "methodString = ''VTKProbeFilter''"
  then show "return_code (ScanConversionResampling tk n inputImage w size' spacing origin
        direction methodString p) =
      return_code (VTKProbeFilterResampling tk inputImage w size' spacing origin p)"
    by (simp add: method_of_recognized dispatch_probe)
next
  assume "methodString \<in> {''VTKGaussianKernel'', ''VTKLinearKernel'', ''VTKShepardKernel'',
        ''VTKVoronoiKernel''}"
  then have "method_of_methodString methodString \<in>
     {VTK_GAUSSIAN_KERNEL, VTK_LINEAR_KERNEL, VTK_SHEPARD_KERNEL, VTK_VORONOI_KERNEL}"
    by (auto simp add: method_of_recognized)
  then show "return_code (ScanConversionResampling tk n inputImage w size' spacing origin
        direction methodString p) =
      return_code (VTKPointInterpolatorResampling tk n inputImage w size' spacing origin
        (method_of_methodString methodString) p)"
    by (simp only: dispatch_kernel)
qed

lemma example_ITK_code:
  "return_code (ITKScanConversionResampling symbolic_toolkit ''in'' example_caller
      (Vec3 4 5 6) (Vec3 1 2 3) (Vec3 0 0 0) identity_direction ITK_LINEAR 0) = Some EXIT_SUCCESS"
  by (simp add: ITKScanConversionResampling_def symbolic_toolkit_def Let_def)

lemma example_probe_code:
  "return_code (VTKProbeFilterResampling symbolic_toolkit ''in'' example_caller
      (Vec3 4 5 6) (Vec3 1 2 3) (Vec3 0 0 0) 0) = Some EXIT_SUCCESS"
  by (simp add: VTKProbeFilterResampling_def symbolic_toolkit_def Let_def)

lemma example_kernel_code:
  "return_code (VTKPointInterpolatorResampling symbolic_toolkit 3 ''in'' example_caller
      (Vec3 4 5 6) (Vec3 1 2 3) (Vec3 0 0 0) VTK_SHEPARD_KERNEL 0) = Some EXIT_SUCCESS"
  by (simp add: VTKPointInterpolatorResampling_def symbolic_toolkit_def maxSpacing_loop_closed Let_def)

text \<open>Witness for C4: one name of each group.\<close>

theorem return_code_forwarded_witness:
  "return_code (ScanConversionResampling symbolic_toolkit 3 ''in'' example_caller
      (Vec3 4 5 6) (Vec3 1 2 3) (Vec3 0 0 0) identity_direction ''ITKLinear'' 0) = Some EXIT_SUCCESS \<and>
   return_code (ScanConversionResampling symbolic_toolkit 3 ''in'' example_caller
      (Vec3 4 5 6) (Vec3 1 2 3) (Vec3 0 0 0) identity_direction ''VTKProbeFilter'' 0) = Some EXIT_SUCCESS \<and>
   return_code (ScanConversionResampling symbolic_toolkit 3 ''in'' example_caller
      (Vec3 4 5 6) (Vec3 1 2 3) (Vec3 0 0 0) identity_direction ''VTKShepardKernel'' 0) = Some EXIT_SUCCESS"
  using return_code_forwarded [of "''ITKLinear''" symbolic_toolkit 3 "''in''" example_caller
      "Vec3 4 5 6" "Vec3 1 2 3" "Vec3 0 0 0" identity_direction 0]
    return_code_forwarded [of "''VTKProbeFilter''" symbolic_toolkit 3 "''in''" example_caller
      "Vec3 4 5 6" "Vec3 1 2 3" "Vec3 0 0 0" identity_direction 0]
    return_code_forwarded [of "''VTKShepardKernel''" symbolic_toolkit 3 "''in''" example_caller
      "Vec3 4 5 6" "Vec3 1 2 3" "Vec3 0 0 0" identity_direction 0]
  by (simp add: method_of_recognized example_ITK_code example_probe_code example_kernel_code)

subsection \<open>The kernel adapter's cast and copy\<close>

text \<open>
  Read backwards: a return of the kernel adapter, for a kernel method, is a return of
  \<open>EXIT_SUCCESS\<close> after the four filters have run and the cast image has been copied.
\<close>

lemma kernel_adapter_return_after_cast:
  assumes "method \<in> {VTK_GAUSSIAN_KERNEL, VTK_LINEAR_KERNEL, VTK_SHEPARD_KERNEL, VTK_VORONOI_KERNEL}"
    and "VTKPointInterpolatorResampling tk n inputImage w size' spacing origin method p = Returned rc w'"
  shows "rc = EXIT_SUCCESS \<and>
         (\<exists>c h floatImage cast fresh.
            executed w' = executed w @
              [ConversionFilter_Run c, vtkPointInterpolator_Run h,
               VTKImageToImageFilter_Run [VTKToITK_SetInput (vtkPointInterpolator_Update tk h)],
               CastImageFilter_Run [Cast_SetInput floatImage]] \<and>
            VTKImageToFloatImageFilter_Update tk
              [VTKToITK_SetInput (vtkPointInterpolator_Update tk h)] = Some floatImage \<and>
            CastImageFilter_Update tk [Cast_SetInput floatImage] = Some cast \<and>
            fresh = Image_Allocate tk (CopyInformation tk cast
                      (SetRegions tk (GetLargestPossibleRegion tk cast) (Image_New tk))) \<and>
            outputImage w' = ImageAlgorithm_Copy tk cast fresh
              (GetLargestPossibleRegion tk fresh) (GetLargestPossibleRegion tk fresh) \<and>
            cerr w' = cerr w)"
  using assms
  by (cases "method")
     (auto simp add: VTKPointInterpolatorResampling_def Let_def run_def print_line_def
       split: option.splits)

text \<open>
  C5. For each of the four kernel methods, with the input image's dimension at most 3:
  when the conversion to a structured grid and the conversion of the interpolator's
  output to a float image complete, the adapter has run, in order, the conversion, the
  point interpolator, the conversion to a float image and the cast of that image to the
  output pixel type, and has printed nothing. When the cast completes the adapter returns
  \<open>EXIT_SUCCESS\<close> with \<open>outputImage\<close> the copy of the cast image into a new, allocated
  image that was given the cast image's largest possible region, over that new image's
  largest possible region; when the cast throws, \<open>outputImage\<close> is as before.
\<close>

theorem kernel_adapter_cast_and_copy:
  assumes "method = VTK_GAUSSIAN_KERNEL \<and>
             k = vtkGaussianKernel [SetKernelFootprintToRadius, SetRadius radius] \<or>
           method = VTK_LINEAR_KERNEL \<and>
             k = vtkLinearKernel [SetKernelFootprintToRadius, SetRadius radius] \<or>
           method = VTK_SHEPARD_KERNEL \<and>
             k = vtkShepardKernel [SetKernelFootprintToRadius, SetRadius radius] \<or>
           method = VTK_VORONOI_KERNEL \<and> k = vtkVoronoiKernel []"
    and "n \<le> 3"
    and "radius = double_times tk (double_1_1 tk)
           (foldl (std_max (double_less tk)) (double_0_0 tk)
              (take n [c0 spacing, c1 spacing, c2 spacing]))"
    and "c = [Conversion_SetInput inputImage,
              Conversion_Watcher ''Convert to vtkStructuredGrid'' p]"
    and "ConversionFilter_Update tk c = Some sg"
    and "h = [SetSourceData (StructuredGrid_ComputeBounds tk sg),
              SetInputData
                [SetDimensions (ucast (c0 size')) (ucast (c1 size')) (ucast (c2 size')),
                 SetSpacing (c0 spacing) (c1 spacing) (c2 spacing),
                 SetOrigin (c0 origin) (c1 origin) (c2 origin), ComputeBounds,
                 PointData_SetScalars
                   [SetName ''Scalars'', Allocate (c0 size' * c1 size' * c2 size')]],
              SetPassPointArrays False, SetNullPointsStrategyToNullValue,
              SetNullValue (double_0_0 tk), SetKernel k]"
    and "v = [VTKToITK_SetInput (vtkPointInterpolator_Update tk h)]"
    and "VTKImageToFloatImageFilter_Update tk v = Some floatImage"
  shows "\<exists>w'. final (VTKPointInterpolatorResampling tk n inputImage w size' spacing origin
                 method p) = Some w' \<and>
           executed w' = executed w @
             [ConversionFilter_Run c, vtkPointInterpolator_Run h,
              VTKImageToImageFilter_Run v, CastImageFilter_Run [Cast_SetInput floatImage]] \<and>
           cerr w' = cerr w \<and>
           (case CastImageFilter_Update tk [Cast_SetInput floatImage] of
              None \<Rightarrow>
                VTKPointInterpolatorResampling tk n inputImage w size' spacing origin method p =
                  Threw w' \<and>
                outputImage w' = outputImage w
            | Some cast \<Rightarrow>
                VTKPointInterpolatorResampling tk n inputImage w size' spacing origin method p =
                  Returned EXIT_SUCCESS w' \<and>
                (let fresh = Image_Allocate tk (CopyInformation tk cast
                       (SetRegions tk (GetLargestPossibleRegion tk cast) (Image_New tk)))
                 in outputImage w' = ImageAlgorithm_Copy tk cast fresh
                      (GetLargestPossibleRegion tk fresh) (GetLargestPossibleRegion tk fresh)))"
  using assms
  by (elim disjE conjE)
     (simp_all add: VTKPointInterpolatorResampling_def Let_def run_def maxSpacing_loop_closed
       split: option.split)

text \<open>Witness for C5: the linear kernel on the recording toolkit.\<close>

theorem kernel_adapter_cast_and_copy_witness:
  "\<exists>w' cast fresh.
     VTKPointInterpolatorResampling symbolic_toolkit 3 ''in'' example_caller
       (Vec3 4 5 6) (Vec3 1 2 3) (Vec3 0 0 0) VTK_LINEAR_KERNEL 0 = Returned EXIT_SUCCESS w' \<and>
     cast = Cast_of [Cast_SetInput (Float_image [VTKToITK_SetInput (Interpolated
       [SetSourceData (Bounds_computed (Grid [Conversion_SetInput ''in'',
          Conversion_Watcher ''Convert to vtkStructuredGrid'' 0])),
        SetInputData
          [SetDimensions 4 5 6, SetSpacing 1 2 3, SetOrigin 0 0 0, ComputeBounds,
           PointData_SetScalars [SetName ''Scalars'', Allocate 120]],
        SetPassPointArrays False, SetNullPointsStrategyToNullValue, SetNullValue 0,
        SetKernel (vtkLinearKernel [SetKernelFootprintToRadius, SetRadius (33 / 10)])])])] \<and>
     fresh = Allocated (With_information cast (With_regions (Largest_region cast) New_image)) \<and>
     outputImage w' = Copied cast fresh (Largest_region fresh) (Largest_region fresh)"
proof -
  have k: "VTK_LINEAR_KERNEL = VTK_GAUSSIAN_KERNEL \<and>
             vtkLinearKernel [SetKernelFootprintToRadius, SetRadius (33 / 10 :: real)] =
               vtkGaussianKernel [SetKernelFootprintToRadius, SetRadius (33 / 10)] \<or>
           VTK_LINEAR_KERNEL = VTK_LINEAR_KERNEL \<and>
             vtkLinearKernel [SetKernelFootprintToRadius, SetRadius (33 / 10 :: real)] =
               vtkLinearKernel [SetKernelFootprintToRadius, SetRadius (33 / 10)] \<or>
           VTK_LINEAR_KERNEL = VTK_SHEPARD_KERNEL \<and>
             vtkLinearKernel [SetKernelFootprintToRadius, SetRadius (33 / 10 :: real)] =
               vtkShepardKernel [SetKernelFootprintToRadius, SetRadius (33 / 10)] \<or>
           VTK_LINEAR_KERNEL = VTK_VORONOI_KERNEL \<and>
             vtkLinearKernel [SetKernelFootprintToRadius, SetRadius (33 / 10 :: real)] =
               vtkVoronoiKernel []"
    by simp
  have n: "(3 :: nat) \<le> 3" by simp
  have r: "(33 / 10 :: real) = double_times symbolic_toolkit (double_1_1 symbolic_toolkit)
      (foldl (std_max (double_less symbolic_toolkit)) (double_0_0 symbolic_toolkit)
        (take 3 [c0 (Vec3 1 2 3), c1 (Vec3 1 2 3), c2 (Vec3 1 2 3)]))"
    by (simp add: symbolic_toolkit_def std_max_def)
  have c: "ConversionFilter_Update symbolic_toolkit
      [Conversion_SetInput ''in'', Conversion_Watcher ''Convert to vtkStructuredGrid'' 0] =
      Some (Grid [Conversion_SetInput ''in'',
        Conversion_Watcher ''Convert to vtkStructuredGrid'' 0])"
    by (simp add: symbolic_toolkit_def)
  have f: "VTKImageToFloatImageFilter_Update symbolic_toolkit v = Some (Float_image v)" for v
    by (simp add: symbolic_toolkit_def)
  from kernel_adapter_cast_and_copy [where w = example_caller and size' = "Vec3 4 5 6"
      and origin = "Vec3 0 0 0", OF k n r refl c refl refl f]
  show ?thesis
    by (auto simp add: symbolic_toolkit_def Let_def)
qed

subsection \<open>The adapters' own error branches\<close>

text \<open>
  C6. Whatever the method name, the dispatcher is the resampler adapter called with one
  of its three methods, or the probe-filter adapter, or the kernel adapter called with one
  of its four kernels. So a call through the dispatcher never returns \<open>EXIT_FAILURE\<close>
  and never prints: neither adapter takes its unsupported-method branch.
\<close>

theorem adapter_error_branches_unreachable:
  "((\<exists>method \<in> {ITK_NEAREST_NEIGHBOR, ITK_LINEAR, ITK_WINDOWED_SINC}.
       ScanConversionResampling tk n inputImage w size' spacing origin direction methodString p =
       ITKScanConversionResampling tk inputImage w size' spacing origin direction method p) \<or>
    ScanConversionResampling tk n inputImage w size' spacing origin direction methodString p =
      VTKProbeFilterResampling tk inputImage w size' spacing origin p \<or>
    (\<exists>method \<in> {VTK_GAUSSIAN_KERNEL, VTK_LINEAR_KERNEL, VTK_SHEPARD_KERNEL, VTK_VORONOI_KERNEL}.
       ScanConversionResampling tk n inputImage w size' spacing origin direction methodString p =
       VTKPointInterpolatorResampling tk n inputImage w size' spacing origin method p)) \<and>
   return_code (ScanConversionResampling tk n inputImage w size' spacing origin direction
     methodString p) \<noteq> Some EXIT_FAILURE \<and>
   (\<forall>w'. final (ScanConversionResampling tk n inputImage w size' spacing origin direction
     methodString p) = Some w' \<longrightarrow> cerr w' = cerr w)"
  (is "(?I \<or> ?P \<or> ?K) \<and> ?R \<and> ?C")
proof -
  let ?m = "method_of_methodString methodString"
  consider (itk) "?m \<in> {ITK_NEAREST_NEIGHBOR, ITK_LINEAR, ITK_WINDOWED_SINC}"
    | (probe) "?m = VTK_PROBE_FILTER"
    | (kernel) "?m \<in> {VTK_GAUSSIAN_KERNEL, VTK_LINEAR_KERNEL, VTK_SHEPARD_KERNEL,
        VTK_VORONOI_KERNEL}"
    using method_cases [of ?m] by blast
  then show ?thesis
  proof cases
    case itk
    note eq = dispatch_ITK [OF itk, of tk n inputImage w size' spacing origin direction p]
    have ?I
      by (rule bexI [where x = ?m and P = "\<lambda>method.
        ScanConversionResampling tk n inputImage w size' spacing origin direction methodString p =
        ITKScanConversionResampling tk inputImage w size' spacing origin direction method p"])
        (rule eq, rule itk)
    moreover have ?R unfolding eq by (rule ITK_supported_quiet(1) [OF itk])
    moreover have ?C unfolding eq by (rule ITK_supported_quiet(2) [OF itk])
    ultimately show ?thesis by (intro conjI disjI1)
  next
    case probe
    note eq = dispatch_probe [OF probe, of tk n inputImage w size' spacing origin direction p]
    have ?P by (rule eq)
    moreover have ?R unfolding eq by (rule probe_quiet(1))
    moreover have ?C unfolding eq by (rule probe_quiet(2))
    ultimately show ?thesis by (intro conjI disjI2 disjI1)
  next
    case kernel
    note eq = dispatch_kernel [OF kernel, of tk n inputImage w size' spacing origin direction p]
    have ?K
      by (rule bexI [where x = ?m and P = "\<lambda>method.
        ScanConversionResampling tk n inputImage w size' spacing origin direction methodString p =
        VTKPointInterpolatorResampling tk n inputImage w size' spacing origin method p"])
        (rule eq, rule kernel)
    moreover have ?R unfolding eq by (rule kernel_supported_quiet(1) [OF kernel])
    moreover have ?C unfolding eq by (rule kernel_supported_quiet(2) [OF kernel])
    ultimately show ?thesis by (intro conjI disjI2)
  qed
qed

text \<open>Witness for C6: a kernel name on the recording toolkit.\<close>

lemma example_kernel_final:
  "\<exists>w'. final (ScanConversionResampling symbolic_toolkit 3 ''in'' example_caller
      (Vec3 4 5 6) (Vec3 1 2 3) (Vec3 0 0 0) identity_direction ''VTKGaussianKernel'' 0) = Some w'"
  by (simp add: dispatch_kernel method_of_recognized VTKPointInterpolatorResampling_def
      symbolic_toolkit_def maxSpacing_loop_closed Let_def)

theorem adapter_error_branches_unreachable_witness:
  "return_code (ScanConversionResampling symbolic_toolkit 3 ''in'' example_caller
      (Vec3 4 5 6) (Vec3 1 2 3) (Vec3 0 0 0) identity_direction ''VTKGaussianKernel'' 0)
     \<noteq> Some EXIT_FAILURE \<and>
   (\<exists>w'. final (ScanConversionResampling symbolic_toolkit 3 ''in'' example_caller
      (Vec3 4 5 6) (Vec3 1 2 3) (Vec3 0 0 0) identity_direction ''VTKGaussianKernel'' 0) = Some w' \<and>
      cerr w' = [])"
proof -
  note t = adapter_error_branches_unreachable [of symbolic_toolkit 3 "''in''" example_caller
      "Vec3 4 5 6" "Vec3 1 2 3" "Vec3 0 0 0" identity_direction "''VTKGaussianKernel''" 0]
  from example_kernel_final obtain w' where f:
    "final (ScanConversionResampling symbolic_toolkit 3 ''in'' example_caller
      (Vec3 4 5 6) (Vec3 1 2 3) (Vec3 0 0 0) identity_direction ''VTKGaussianKernel'' 0) = Some w'" ..
  from t [THEN conjunct2, THEN conjunct2, rule_format, OF f]
  have "cerr w' = []"
    by (simp add: example_caller_def)
  with f t [THEN conjunct2, THEN conjunct1] show ?thesis
    by blast
qed

subsection \<open>Order of the resampler adapter\<close>

text \<open>
  C7. For each of the three \<open>ITK\<close> methods the resampler is run exactly once, having
  received by then its input, the size, the spacing, the origin, the direction and the
  interpolator of the method, in that order. When the run completes the adapter returns
  \<open>EXIT_SUCCESS\<close> with \<open>outputImage\<close> the resampler's output; when it throws,
  \<open>outputImage\<close> is as before.
\<close>

theorem ITK_resampler_order:
  assumes "method = ITK_NEAREST_NEIGHBOR \<and> interpolator = NearestNeighborInterpolateImageFunction \<or>
           method = ITK_LINEAR \<and> interpolator = LinearInterpolateImageFunction \<or>
           method = ITK_WINDOWED_SINC \<and>
             interpolator = WindowedSincInterpolateImageFunction 3 (LanczosWindowFunction 3)"
    and "h = [Resample_SetInput inputImage, SetSize size', SetOutputSpacing spacing,
              SetOutputOrigin origin, SetOutputDirection direction,
              SetInterpolator interpolator, Resample_Watcher ''Resample Image'' p]"
  shows "\<exists>w'. final (ITKScanConversionResampling tk inputImage w size' spacing origin direction method p) = Some w' \<and>
           executed w' = executed w @ [ResampleImageFilter_Run h] \<and>
           (case ResampleImageFilter_Update tk h of
              None \<Rightarrow> ITKScanConversionResampling tk inputImage w size' spacing origin direction method p = Threw w' \<and>
                        outputImage w' = outputImage w
            | Some out \<Rightarrow> ITKScanConversionResampling tk inputImage w size' spacing origin direction method p = Returned EXIT_SUCCESS w' \<and>
                        outputImage w' = out)"
  using assms
  by (auto simp add: ITKScanConversionResampling_def Let_def run_def split: option.splits)

text \<open>Witness for C7: the windowed-sinc method on the recording toolkit.\<close>

theorem ITK_resampler_order_witness:
  "\<exists>w'. ITKScanConversionResampling symbolic_toolkit ''in'' example_caller
           (Vec3 4 5 6) (Vec3 1 2 3) (Vec3 0 0 0) identity_direction ITK_WINDOWED_SINC 0
         = Returned EXIT_SUCCESS w' \<and>
         executed w' = [ResampleImageFilter_Run
           [Resample_SetInput ''in'', SetSize (Vec3 4 5 6), SetOutputSpacing (Vec3 1 2 3),
            SetOutputOrigin (Vec3 0 0 0), SetOutputDirection identity_direction,
            SetInterpolator (WindowedSincInterpolateImageFunction 3 (LanczosWindowFunction 3)),
            Resample_Watcher ''Resample Image'' 0]] \<and>
         outputImage w' = Resampled
           [Resample_SetInput ''in'', SetSize (Vec3 4 5 6), SetOutputSpacing (Vec3 1 2 3),
            SetOutputOrigin (Vec3 0 0 0), SetOutputDirection identity_direction,
            SetInterpolator (WindowedSincInterpolateImageFunction 3 (LanczosWindowFunction 3)),
            Resample_Watcher ''Resample Image'' 0]"
  using ITK_resampler_order [of ITK_WINDOWED_SINC
      "WindowedSincInterpolateImageFunction 3 (LanczosWindowFunction 3)" _
      "''in''" "Vec3 4 5 6" "Vec3 1 2 3" "Vec3 0 0 0" identity_direction 0
      symbolic_toolkit example_caller, OF _ refl]
  by (auto simp add: symbolic_toolkit_def example_caller_def)

subsection \<open>Failure leaves the output image alone\<close>

text \<open>
  C8. When any of the four functions returns \<open>EXIT_FAILURE\<close>, \<open>outputImage\<close> is what
  it was before the call; and whenever \<open>outputImage\<close> differs after a call, the function
  returned \<open>EXIT_SUCCESS\<close>.
\<close>

theorem outputImage_assigned_only_on_success:
  "(ITKScanConversionResampling tk inputImage w size' spacing origin direction method p =
      Returned EXIT_FAILURE w' \<longrightarrow> outputImage w' = outputImage w) \<and>
   (VTKProbeFilterResampling tk inputImage w size' spacing origin p =
      Returned EXIT_FAILURE w' \<longrightarrow> outputImage w' = outputImage w) \<and>
   (VTKPointInterpolatorResampling tk n inputImage w size' spacing origin method p =
      Returned EXIT_FAILURE w' \<longrightarrow> outputImage w' = outputImage w) \<and>
   (ScanConversionResampling tk n inputImage w size' spacing origin direction methodString p =
      Returned EXIT_FAILURE w' \<longrightarrow> outputImage w' = outputImage w) \<and>
   (final (ITKScanConversionResampling tk inputImage w size' spacing origin direction method p)
      = Some w' \<and> outputImage w' \<noteq> outputImage w \<longrightarrow>
    ITKScanConversionResampling tk inputImage w size' spacing origin direction method p =
      Returned EXIT_SUCCESS w') \<and>
   (final (VTKProbeFilterResampling tk inputImage w size' spacing origin p)
      = Some w' \<and> outputImage w' \<noteq> outputImage w \<longrightarrow>
    VTKProbeFilterResampling tk inputImage w size' spacing origin p =
      Returned EXIT_SUCCESS w') \<and>
   (final (VTKPointInterpolatorResampling tk n inputImage w size' spacing origin method p)
      = Some w' \<and> outputImage w' \<noteq> outputImage w \<longrightarrow>
    VTKPointInterpolatorResampling tk n inputImage w size' spacing origin method p =
      Returned EXIT_SUCCESS w') \<and>
   (final (ScanConversionResampling tk n inputImage w size' spacing origin direction
      methodString p) = Some w' \<and> outputImage w' \<noteq> outputImage w \<longrightarrow>
    ScanConversionResampling tk n inputImage w size' spacing origin direction methodString p =
      Returned EXIT_SUCCESS w')"
proof -
  have ne: "EXIT_FAILURE \<noteq> EXIT_SUCCESS"
    by (simp add: EXIT_FAILURE_def EXIT_SUCCESS_def)
  have disp: "final (ScanConversionResampling tk n inputImage w size' spacing origin direction
      methodString p) = Some w' \<Longrightarrow> outputImage w' \<noteq> outputImage w \<Longrightarrow>
    ScanConversionResampling tk n inputImage w size' spacing origin direction methodString p =
      Returned EXIT_SUCCESS w'"
    using method_cases [of "method_of_methodString methodString"]
    by (elim disjE)
       (simp_all add: dispatch_ITK dispatch_probe dispatch_kernel ITK_assigns_on_success
          probe_assigns_on_success kernel_assigns_on_success)
  show ?thesis
    using ne disp
      ITK_assigns_on_success [of tk inputImage w size' spacing origin direction "method" p w']
      probe_assigns_on_success [of tk inputImage w size' spacing origin p w']
      kernel_assigns_on_success [of tk n inputImage w size' spacing origin "method" p w']
    by (intro conjI impI) auto
qed

text \<open>
  Witness for C8: each adapter that has a failing branch, at a method it does not support.
\<close>

theorem outputImage_assigned_only_on_success_witness:
  "ITKScanConversionResampling symbolic_toolkit ''in'' example_caller
     (Vec3 4 5 6) (Vec3 1 2 3) (Vec3 0 0 0) identity_direction VTK_PROBE_FILTER 0 =
   Returned EXIT_FAILURE
     (print_line ''Unsupported resampling method in ITKScanConversionResampling'' example_caller) \<and>
   outputImage
     (print_line ''Unsupported resampling method in ITKScanConversionResampling'' example_caller) =
   outputImage example_caller \<and>
   VTKPointInterpolatorResampling symbolic_toolkit 3 ''in'' example_caller
     (Vec3 4 5 6) (Vec3 1 2 3) (Vec3 0 0 0) ITK_LINEAR 0 =
   Returned EXIT_FAILURE
     (print_line ''Unexpected interpolation kernel: 1''
        (run (ConversionFilter_Run
           [Conversion_SetInput ''in'', Conversion_Watcher ''Convert to vtkStructuredGrid'' 0])
           example_caller)) \<and>
   outputImage
     (print_line ''Unexpected interpolation kernel: 1''
        (run (ConversionFilter_Run
           [Conversion_SetInput ''in'', Conversion_Watcher ''Convert to vtkStructuredGrid'' 0])
           example_caller)) =
   outputImage example_caller"
  using outputImage_assigned_only_on_success [of symbolic_toolkit "''in''" example_caller
      "Vec3 4 5 6" "Vec3 1 2 3" "Vec3 0 0 0" identity_direction VTK_PROBE_FILTER 0
      "print_line ''Unsupported resampling method in ITKScanConversionResampling'' example_caller"
      3 "''ITKLinear''"]
    outputImage_assigned_only_on_success [of symbolic_toolkit "''in''" example_caller
      "Vec3 4 5 6" "Vec3 1 2 3" "Vec3 0 0 0" identity_direction ITK_LINEAR 0
      "print_line ''Unexpected interpolation kernel: 1''
        (run (ConversionFilter_Run
           [Conversion_SetInput ''in'', Conversion_Watcher ''Convert to vtkStructuredGrid'' 0])
           example_caller)"
      3 "''ITKLinear''"]
    example_ITK_unsupported example_kernel_unsupported
  by simp

subsection \<open>The kernel radius\<close>




subsection \<open>Null points and point arrays\<close>



end
